theory Spec2Isabelle
  imports Main
begin

section \<open>JavaScript values the notifier handles\<close>

text \<open>
  A field that TypeScript declares as \<open>T | null\<close> can, at run time, also hold
  \<open>undefined\<close>: \<open>loadCacheFromDisk\<close> copies whatever \<open>JSON.parse\<close> produced.
  \<open>jsval\<close> keeps the three cases apart.
\<close>

datatype 'a jsval = Undefined | Null | Val 'a

text \<open>
  A JavaScript number that is either an integer or \<open>NaN\<close> (\<open>None\<close>). Time stamps are
  milliseconds since the epoch; \<open>new Date(s).getTime()\<close> is \<open>NaN\<close> for a string that is
  not a date.
\<close>

type_synonym jsnumber = "int option"

definition toNumber :: "int jsval \<Rightarrow> jsnumber" where
  "toNumber v = (case v of Undefined \<Rightarrow> None | Null \<Rightarrow> Some 0 | Val n \<Rightarrow> Some n)"

definition js_minus :: "jsnumber \<Rightarrow> jsnumber \<Rightarrow> jsnumber" where
  "js_minus a b =
     (case a of None \<Rightarrow> None
      | Some x \<Rightarrow> (case b of None \<Rightarrow> None | Some y \<Rightarrow> Some (x - y)))"

definition js_less :: "jsnumber \<Rightarrow> jsnumber \<Rightarrow> bool" where
  "js_less a b =
     (case a of None \<Rightarrow> False
      | Some x \<Rightarrow> (case b of None \<Rightarrow> False | Some y \<Rightarrow> x < y))"

section \<open>Types (src/types.ts)\<close>

record ReleaseNotifierConfig =
  cfg_repo :: string
  cfg_checkInterval :: "int option"
  cfg_cacheFilePath :: "string option"
  cfg_token :: "string option"

record GitHubReleaseResponse =
  tag_name :: string
  name :: "string option"
  html_url :: string
  published_at :: string
  prerelease :: bool
  draft :: bool

text \<open>
  The public \<open>Release\<close>. Its fields \<open>name\<close>, \<open>prerelease\<close> and \<open>draft\<close> carry the
  prefix \<open>rel_\<close> here, since a record field is a constant and \<open>GitHubReleaseResponse\<close>
  has fields of the same names.
\<close>

record Release =
  tagName :: string
  rel_name :: "string option"
  rel_prerelease :: bool
  rel_draft :: bool
  htmlUrl :: string
  publishedAt :: string

record VersionCheckResult =
  updateAvailable :: bool
  currentVersion :: string
  latestVersion :: "string option"
  latestRelease :: "Release option"

section \<open>The world outside: disk and release source\<close>

text \<open>
  What a path holds, as far as \<open>loadCacheFromDisk\<close> can tell: nothing
  (\<open>existsSync\<close> is false), something \<open>readFileSync\<close> throws on, text that
  \<open>JSON.parse\<close> throws on, the JSON value \<open>null\<close>, a JSON value that is neither
  \<open>null\<close> nor an object with one of the two fields (a number, a string, a boolean, an
  array, an object with other keys: reading \<open>.releases\<close> and \<open>.lastFetchTime\<close> from
  it gives \<open>undefined\<close>), or an object described by its fields \<open>releases\<close> and
  \<open>lastFetchTime\<close>, each absent (\<open>Undefined\<close>), \<open>null\<close> or a value of the declared
  type. \<open>CacheData\<close> of src/types.ts is the last case with both fields \<open>Val\<close>.
  Field values of another JSON type are outside this model.
\<close>

datatype disk_file =
    NoFile
  | Unreadable
  | Unparsable
  | JsonNull
  | JsonOther
  | JsonObject "GitHubReleaseResponse list jsval" "int jsval"

text \<open>
  The world: the files, the paths on which \<open>writeFileSync\<close> throws, and the log of
  requests sent to the release source (URL and headers), oldest first.
\<close>

record world =
  files :: "string \<Rightarrow> disk_file"
  unwritable :: "string set"
  requests :: "(string \<times> (string \<times> string) list) list"

definition existsSync :: "world \<Rightarrow> string \<Rightarrow> bool" where
  "existsSync w p = (files w p \<noteq> NoFile)"

text \<open>\<open>writeFileSync\<close>: \<open>None\<close> when it throws, else the world with the file replaced.\<close>

definition writeFileSync :: "string \<Rightarrow> disk_file \<Rightarrow> world \<Rightarrow> world option" where
  "writeFileSync p content w =
     (if p \<in> unwritable w then None else Some (w\<lparr>files := (files w)(p := content)\<rparr>))"

text \<open>
  What \<open>fetch\<close> followed by \<open>response.json()\<close> does when it is called: the promise
  rejects (transport failure), the response is not \<open>ok\<close> (status and status text), or
  the body is the release list, in the order the source chose.
\<close>

datatype fetch_outcome =
    Rejects string
  | RespondsNotOk int string
  | RespondsOk "GitHubReleaseResponse list"

datatype cause = GitHubApiError int string | FetchRejected string | TypeError

datatype error =
    FailedToFetchReleases cause
  | FailedToFetchPrereleases cause
  | FailedToCheckVersion cause

section \<open>The notifier (class ReleaseNotifier)\<close>

record ReleaseNotifier =
  repo :: string
  checkInterval :: int
  cacheFilePath :: "string option"
  token :: "string option"
  cachedReleases :: "GitHubReleaseResponse list jsval"
  lastFetchTime :: "int jsval"

subsection \<open>normalizeVersion, isVersionOlder\<close>

text \<open>
  Strings are lists of 8-bit code units. \<open>String.prototype.trim\<close> removes white space
  and line terminators at both ends; in this range these are TAB, LF, VT, FF, CR, SP and
  NBSP.
\<close>

definition isWhiteSpace :: "char \<Rightarrow> bool" where
  "isWhiteSpace c = ((of_char c :: nat) \<in> {9, 10, 11, 12, 13, 32, 160})"

definition trim :: "string \<Rightarrow> string" where
  "trim s = rev (dropWhile isWhiteSpace (rev (dropWhile isWhiteSpace s)))"

text \<open>\<open>replace(/^v/i, '')\<close>: one leading \<open>v\<close> or \<open>V\<close> goes.\<close>

definition normalizeVersion :: "string \<Rightarrow> string" where
  "normalizeVersion version =
     (case trim version of
        [] \<Rightarrow> []
      | c # cs \<Rightarrow> if c = CHR ''v'' \<or> c = CHR ''V'' then cs else c # cs)"

text \<open>
  \<open>getTime\<close> stands for \<open>s \<mapsto> new Date(s).getTime()\<close> of the JavaScript engine; it is
  a parameter of every function that reads a date.
\<close>

definition isVersionOlder :: "(string \<Rightarrow> jsnumber) \<Rightarrow> string \<Rightarrow> string \<Rightarrow> bool" where
  "isVersionOlder getTime date1 date2 = js_less (getTime date1) (getTime date2)"

subsection \<open>Disk persistence\<close>

text \<open>
  \<open>saveCacheToDisk\<close>. Nothing happens without a (truthy) path. When the in-memory list
  is \<open>null\<close> the empty state is written, else the two fields as they are
  (\<open>JSON.stringify\<close> leaves out a field that is \<open>undefined\<close>). The \<open>catch\<close> drops a
  failure of \<open>writeFileSync\<close>: the world stays as it was.
\<close>

definition saveCacheToDisk :: "ReleaseNotifier \<Rightarrow> world \<Rightarrow> world" where
  "saveCacheToDisk this w =
     (case cacheFilePath this of
        None \<Rightarrow> w
      | Some p \<Rightarrow>
          if p = [] then w
          else
            (let cache =
               (if cachedReleases this = Null then JsonObject (Val []) (Val 0)
                else JsonObject (cachedReleases this) (lastFetchTime this))
             in case writeFileSync p cache w of None \<Rightarrow> w | Some w' \<Rightarrow> w'))"

text \<open>
  \<open>loadCacheFromDisk\<close>. The \<open>try\<close> block reads, parses and copies the two fields; the
  \<open>catch\<close> resets both. Reading a property of \<open>null\<close> throws before anything is
  assigned; reading it from any other parsed value does not throw.
\<close>

definition loadCacheFromDisk :: "ReleaseNotifier \<Rightarrow> world \<Rightarrow> ReleaseNotifier" where
  "loadCacheFromDisk this w =
     (case cacheFilePath this of
        None \<Rightarrow> this
      | Some p \<Rightarrow>
          if p = [] then this
          else if \<not> existsSync w p then this
          else
            (case files w p of
               NoFile \<Rightarrow> this
             | Unreadable \<Rightarrow> this\<lparr>cachedReleases := Null, lastFetchTime := Val 0\<rparr>
             | Unparsable \<Rightarrow> this\<lparr>cachedReleases := Null, lastFetchTime := Val 0\<rparr>
             | JsonNull \<Rightarrow> this\<lparr>cachedReleases := Null, lastFetchTime := Val 0\<rparr>
             | JsonOther \<Rightarrow> this\<lparr>cachedReleases := Undefined, lastFetchTime := Undefined\<rparr>
             | JsonObject rs t \<Rightarrow> this\<lparr>cachedReleases := rs, lastFetchTime := t\<rparr>))"

text \<open>The constructor: defaults, then the load. It has no failing branch.\<close>

definition constructor :: "ReleaseNotifierConfig \<Rightarrow> world \<Rightarrow> ReleaseNotifier" where
  "constructor config w =
     loadCacheFromDisk
       \<lparr>repo = cfg_repo config,
        checkInterval = (case cfg_checkInterval config of None \<Rightarrow> 3600000 | Some n \<Rightarrow> n),
        cacheFilePath = cfg_cacheFilePath config,
        token = cfg_token config,
        cachedReleases = Null,
        lastFetchTime = Val 0\<rparr> w"

definition clearCache :: "ReleaseNotifier \<Rightarrow> world \<Rightarrow> ReleaseNotifier \<times> world" where
  "clearCache this w =
     (let this' = this\<lparr>cachedReleases := Null, lastFetchTime := Val 0\<rparr>
      in (this', saveCacheToDisk this' w))"

subsection \<open>fetchAllReleases\<close>

text \<open>
  \<open>Array.prototype.sort\<close> with a comparison function: stable, and for a consistent
  comparison function the result is the one list that is ordered and keeps equal
  elements in their input order. Insertion from the right computes it. The comparison
  function of \<open>fetchAllReleases\<close> is consistent when every date is valid; \<open>sort\<close>
  reads a \<open>NaN\<close> result as \<open>+0\<close>, and the order it produces for a comparison function
  that is not consistent is left to the engine.
\<close>

fun insert_by :: "('a \<Rightarrow> 'a \<Rightarrow> int) \<Rightarrow> 'a \<Rightarrow> 'a list \<Rightarrow> 'a list" where
  "insert_by cmp x [] = [x]"
| "insert_by cmp x (y # ys) =
     (if cmp x y \<le> 0 then x # y # ys else y # insert_by cmp x ys)"

definition sort_by :: "('a \<Rightarrow> 'a \<Rightarrow> int) \<Rightarrow> 'a list \<Rightarrow> 'a list" where
  "sort_by cmp xs = foldr (insert_by cmp) xs []"

text \<open>\<open>(a, b) => new Date(b.published_at).getTime() - new Date(a.published_at).getTime()\<close>\<close>

definition byPublishedDesc ::
  "(string \<Rightarrow> jsnumber) \<Rightarrow> GitHubReleaseResponse \<Rightarrow> GitHubReleaseResponse \<Rightarrow> int" where
  "byPublishedDesc getTime a b =
     (case js_minus (getTime (published_at b)) (getTime (published_at a)) of
        None \<Rightarrow> 0
      | Some d \<Rightarrow> d)"

text \<open>The condition under which the cached value is returned.\<close>

definition cacheValid :: "ReleaseNotifier \<Rightarrow> int \<Rightarrow> bool" where
  "cacheValid this now =
     (cachedReleases this \<noteq> Null \<and> checkInterval this > 0 \<and>
      js_less (js_minus (Some now) (toNumber (lastFetchTime this))) (Some (checkInterval this)))"

definition request :: "ReleaseNotifier \<Rightarrow> string \<times> (string \<times> string) list" where
  "request this =
     (''https://api.github.com/repos/'' @ repo this @ ''/releases'',
      [(''Accept'', ''application/vnd.github+json''),
       (''X-GitHub-Api-Version'', ''2022-11-28'')] @
      (case token this of
         None \<Rightarrow> []
       | Some t \<Rightarrow> if t = [] then [] else [(''Authorization'', ''Bearer '' @ t)]))"

text \<open>
  \<open>now\<close> is \<open>Date.now()\<close>; \<open>source\<close> is what the release source does if it is asked.
  The result is the thrown cause or the returned value, with the notifier and the world
  afterwards. A cached value is returned as it is, also when it is \<open>undefined\<close>.
\<close>

definition fetchAllReleases ::
  "(string \<Rightarrow> jsnumber) \<Rightarrow> int \<Rightarrow> fetch_outcome \<Rightarrow> ReleaseNotifier \<Rightarrow> world \<Rightarrow>
   (cause + GitHubReleaseResponse list jsval) \<times> ReleaseNotifier \<times> world" where
  "fetchAllReleases getTime now source this w =
     (if cacheValid this now then (Inr (cachedReleases this), this, w)
      else
        (let w1 = w\<lparr>requests := requests w @ [request this]\<rparr>
         in case source of
              Rejects msg \<Rightarrow> (Inl (FetchRejected msg), this, w1)
            | RespondsNotOk status statusText \<Rightarrow>
                (Inl (GitHubApiError status statusText), this, w1)
            | RespondsOk body \<Rightarrow>
                (let releases = sort_by (byPublishedDesc getTime) body;
                     this' = this\<lparr>cachedReleases := Val releases, lastFetchTime := Val now\<rparr>
                 in (Inr (Val releases), this', saveCacheToDisk this' w1))))"

subsection \<open>The public operations\<close>

text \<open>The object literal that turns a raw record into a \<open>Release\<close>.\<close>

definition toRelease :: "GitHubReleaseResponse \<Rightarrow> Release" where
  "toRelease r =
     \<lparr>tagName = tag_name r, rel_name = name r, rel_prerelease = prerelease r,
      rel_draft = draft r, htmlUrl = html_url r, publishedAt = published_at r\<rparr>"

text \<open>
  The body of \<open>getLatestRelease\<close> after the fetch: the filter, the test for the empty
  array and the first element.
\<close>

definition validReleases :: "bool \<Rightarrow> GitHubReleaseResponse list \<Rightarrow> GitHubReleaseResponse list" where
  "validReleases includePrerelease releases =
     filter (\<lambda>release.
        if draft release then False
        else if \<not> includePrerelease \<and> prerelease release then False
        else True) releases"

definition latestOf :: "bool \<Rightarrow> GitHubReleaseResponse list \<Rightarrow> Release option" where
  "latestOf includePrerelease releases =
     (case validReleases includePrerelease releases of
        [] \<Rightarrow> None
      | latest # _ \<Rightarrow> Some (toRelease latest))"

text \<open>
  A method call on a value that is not an array (\<open>undefined.filter\<close>) throws a
  \<open>TypeError\<close>; every public operation catches what its body throws and throws it
  again under its own prefix.
\<close>

definition getLatestRelease ::
  "(string \<Rightarrow> jsnumber) \<Rightarrow> bool \<Rightarrow> int \<Rightarrow> fetch_outcome \<Rightarrow> ReleaseNotifier \<Rightarrow> world \<Rightarrow>
   (error + Release option) \<times> ReleaseNotifier \<times> world" where
  "getLatestRelease getTime includePrerelease now source this w =
     (case fetchAllReleases getTime now source this w of
        (Inl c, this', w') \<Rightarrow> (Inl (FailedToFetchReleases c), this', w')
      | (Inr (Val releases), this', w') \<Rightarrow> (Inr (latestOf includePrerelease releases), this', w')
      | (Inr _, this', w') \<Rightarrow> (Inl (FailedToFetchReleases TypeError), this', w'))"

definition latestPrereleaseOf :: "GitHubReleaseResponse list \<Rightarrow> Release option" where
  "latestPrereleaseOf releases =
     (case find (\<lambda>release. prerelease release \<and> \<not> draft release) releases of
        None \<Rightarrow> None
      | Some r \<Rightarrow> Some (toRelease r))"

definition getLatestPrerelease ::
  "(string \<Rightarrow> jsnumber) \<Rightarrow> int \<Rightarrow> fetch_outcome \<Rightarrow> ReleaseNotifier \<Rightarrow> world \<Rightarrow>
   (error + Release option) \<times> ReleaseNotifier \<times> world" where
  "getLatestPrerelease getTime now source this w =
     (case fetchAllReleases getTime now source this w of
        (Inl c, this', w') \<Rightarrow> (Inl (FailedToFetchPrereleases c), this', w')
      | (Inr (Val releases), this', w') \<Rightarrow> (Inr (latestPrereleaseOf releases), this', w')
      | (Inr _, this', w') \<Rightarrow> (Inl (FailedToFetchPrereleases TypeError), this', w'))"

text \<open>
  The two searches of \<open>checkVersion\<close>: the release of the current version, and the
  release it is measured against. The parameter \<open>currentVersion\<close> is written with a
  prime, since the result's field has the name.
\<close>

definition currentReleaseOf :: "string \<Rightarrow> GitHubReleaseResponse list \<Rightarrow> GitHubReleaseResponse option" where
  "currentReleaseOf currentVersion' releases =
     (let normalizedCurrent = normalizeVersion currentVersion'
      in find (\<lambda>r. normalizeVersion (tag_name r) = normalizedCurrent \<or>
                    tag_name r = currentVersion') releases)"

definition latestReleaseOf :: "bool \<Rightarrow> GitHubReleaseResponse list \<Rightarrow> GitHubReleaseResponse option" where
  "latestReleaseOf isPrerelease releases =
     (if isPrerelease then find (\<lambda>r. prerelease r \<and> \<not> draft r) releases
      else find (\<lambda>r. \<not> prerelease r \<and> \<not> draft r) releases)"

text \<open>The body of \<open>checkVersion\<close> after the fetch.\<close>

definition checkAgainst ::
  "(string \<Rightarrow> jsnumber) \<Rightarrow> string \<Rightarrow> bool \<Rightarrow> GitHubReleaseResponse list \<Rightarrow> VersionCheckResult" where
  "checkAgainst getTime currentVersion' isPrerelease releases =
     (if length releases = 0 then
        \<lparr>updateAvailable = False, currentVersion = currentVersion',
         latestVersion = None, latestRelease = None\<rparr>
      else
        (case latestReleaseOf isPrerelease releases of
           None \<Rightarrow>
             \<lparr>updateAvailable = False, currentVersion = currentVersion',
              latestVersion = None, latestRelease = None\<rparr>
         | Some latestRelease' \<Rightarrow>
             (case currentReleaseOf currentVersion' releases of
                None \<Rightarrow>
                  \<lparr>updateAvailable = True, currentVersion = currentVersion',
                   latestVersion = Some (tag_name latestRelease'),
                   latestRelease = Some (toRelease latestRelease')\<rparr>
              | Some currentRelease \<Rightarrow>
                  \<lparr>updateAvailable =
                     isVersionOlder getTime (published_at currentRelease)
                       (published_at latestRelease'),
                   currentVersion = currentVersion',
                   latestVersion = Some (tag_name latestRelease'),
                   latestRelease = Some (toRelease latestRelease')\<rparr>)))"

definition checkVersion ::
  "(string \<Rightarrow> jsnumber) \<Rightarrow> string \<Rightarrow> bool \<Rightarrow> int \<Rightarrow> fetch_outcome \<Rightarrow> ReleaseNotifier \<Rightarrow> world \<Rightarrow>
   (error + VersionCheckResult) \<times> ReleaseNotifier \<times> world" where
  "checkVersion getTime currentVersion' isPrerelease now source this w =
     (case fetchAllReleases getTime now source this w of
        (Inl c, this', w') \<Rightarrow> (Inl (FailedToCheckVersion c), this', w')
      | (Inr (Val releases), this', w') \<Rightarrow>
          (Inr (checkAgainst getTime currentVersion' isPrerelease releases), this', w')
      | (Inr _, this', w') \<Rightarrow> (Inl (FailedToCheckVersion TypeError), this', w'))"

section \<open>The releases of the test suite\<close>

text \<open>
  \<open>mockReleases\<close> of test/index.test.ts, in the order of the file (not the order of the
  dates), and \<open>new Date(s).getTime()\<close> on the four dates that occur there; any other
  string counts as no date.
\<close>

definition release_1_5_0 :: GitHubReleaseResponse where
  "release_1_5_0 =
     \<lparr>tag_name = ''v1.5.0'', name = Some ''Release 1.5.0'',
      html_url = ''https://github.com/test/repo/releases/tag/v1.5.0'',
      published_at = ''2024-01-01T00:00:00Z'', prerelease = False, draft = False\<rparr>"

definition release_2_0_0 :: GitHubReleaseResponse where
  "release_2_0_0 =
     \<lparr>tag_name = ''v2.0.0'', name = Some ''Release 2.0.0'',
      html_url = ''https://github.com/test/repo/releases/tag/v2.0.0'',
      published_at = ''2024-01-03T00:00:00Z'', prerelease = False, draft = False\<rparr>"

definition release_1_4_0 :: GitHubReleaseResponse where
  "release_1_4_0 =
     \<lparr>tag_name = ''v1.4.0'', name = Some ''Draft Release'',
      html_url = ''https://github.com/test/repo/releases/tag/v1.4.0'',
      published_at = ''2023-12-31T00:00:00Z'', prerelease = False, draft = True\<rparr>"

definition release_2_0_0_beta_1 :: GitHubReleaseResponse where
  "release_2_0_0_beta_1 =
     \<lparr>tag_name = ''v2.0.0-beta.1'', name = Some ''Beta Release 2.0.0-beta.1'',
      html_url = ''https://github.com/test/repo/releases/tag/v2.0.0-beta.1'',
      published_at = ''2024-01-02T00:00:00Z'', prerelease = True, draft = False\<rparr>"

definition mockReleases :: "GitHubReleaseResponse list" where
  "mockReleases = [release_1_5_0, release_2_0_0, release_1_4_0, release_2_0_0_beta_1]"

definition testTime :: "string \<Rightarrow> jsnumber" where
  "testTime s =
     (if s = ''2023-12-31T00:00:00Z'' then Some 1703980800000
      else if s = ''2024-01-01T00:00:00Z'' then Some 1704067200000
      else if s = ''2024-01-02T00:00:00Z'' then Some 1704153600000
      else if s = ''2024-01-03T00:00:00Z'' then Some 1704240000000
      else None)"

text \<open>
  A notifier as \<open>new ReleaseNotifier({repo: 'test/repo', checkInterval: 60000})\<close> leaves
  it, with or without a cache file, and a world with no file and no request yet.
\<close>

definition testNotifier :: "string option \<Rightarrow> ReleaseNotifier" where
  "testNotifier path =
     \<lparr>repo = ''test/repo'', checkInterval = 60000, cacheFilePath = path, token = None,
      cachedReleases = Null, lastFetchTime = Val 0\<rparr>"

definition emptyWorld :: world where
  "emptyWorld = \<lparr>files = (\<lambda>p. NoFile), unwritable = {}, requests = []\<rparr>"

text \<open>
  Two releases of one version under two tags, the bare tag published after the tag with
  the prefix.
\<close>

definition release_1_0_0_bare :: GitHubReleaseResponse where
  "release_1_0_0_bare =
     \<lparr>tag_name = ''1.0.0'', name = Some ''Release 1.0.0'',
      html_url = ''https://github.com/test/repo/releases/tag/1.0.0'',
      published_at = ''2024-01-03T00:00:00Z'', prerelease = False, draft = False\<rparr>"

definition release_v1_0_0 :: GitHubReleaseResponse where
  "release_v1_0_0 =
     \<lparr>tag_name = ''v1.0.0'', name = Some ''Release 1.0.0'',
      html_url = ''https://github.com/test/repo/releases/tag/v1.0.0'',
      published_at = ''2024-01-01T00:00:00Z'', prerelease = False, draft = False\<rparr>"

text \<open>\<open>mockReleases\<close> in descending order of publication.\<close>

definition sortedMockReleases :: "GitHubReleaseResponse list" where
  "sortedMockReleases = [release_2_0_0, release_2_0_0_beta_1, release_1_5_0, release_1_4_0]"

text \<open>
  A notifier with a cache file configured whose cache was filled at time 1000, the
  configuration that creates a notifier with this path, a world whose only file is the
  cache file, and a world in which the cache file cannot be written.
\<close>

definition cachedNotifier :: ReleaseNotifier where
  "cachedNotifier =
     (testNotifier (Some ''/tmp/test-cache.json''))
       \<lparr>cachedReleases := Val sortedMockReleases, lastFetchTime := Val 1000\<rparr>"

definition testConfig :: ReleaseNotifierConfig where
  "testConfig =
     \<lparr>cfg_repo = ''test/repo'', cfg_checkInterval = Some 60000,
      cfg_cacheFilePath = Some ''/tmp/test-cache.json'', cfg_token = None\<rparr>"

definition worldWith :: "disk_file \<Rightarrow> world" where
  "worldWith f = emptyWorld\<lparr>files := (files emptyWorld)(''/tmp/test-cache.json'' := f)\<rparr>"

definition readOnlyWorld :: world where
  "readOnlyWorld = emptyWorld\<lparr>unwritable := {''/tmp/test-cache.json''}\<rparr>"

section \<open>Properties\<close>

subsection \<open>Unfolding the definitions on concrete inputs\<close>

lemmas test_defs =
  mockReleases_def sortedMockReleases_def release_1_5_0_def release_2_0_0_def release_1_4_0_def
  release_2_0_0_beta_1_def release_1_0_0_bare_def release_v1_0_0_def testTime_def
  testNotifier_def emptyWorld_def

lemmas eval_defs =
  fetchAllReleases_def cacheValid_def toNumber_def js_less_def js_minus_def sort_by_def
  byPublishedDesc_def Let_def

lemmas version_defs =
  currentReleaseOf_def normalizeVersion_def trim_def isWhiteSpace_def Let_def

lemmas fixture_defs = cachedNotifier_def testConfig_def worldWith_def

subsection \<open>Sorting by publication date\<close>







lemma fetchAllReleases_fetch:
  "\<not> cacheValid this now \<Longrightarrow>
   fetchAllReleases getTime now (RespondsOk body) this w =
     (Inr (Val (sort_by (byPublishedDesc getTime) body)),
      this\<lparr>cachedReleases := Val (sort_by (byPublishedDesc getTime) body), lastFetchTime := Val now\<rparr>,
      saveCacheToDisk
        (this\<lparr>cachedReleases := Val (sort_by (byPublishedDesc getTime) body), lastFetchTime := Val now\<rparr>)
        (w\<lparr>requests := requests w @ [request this]\<rparr>))"
  by (simp add: fetchAllReleases_def Let_def)

lemma fetchAllReleases_cached:
  "cacheValid this now \<Longrightarrow>
   fetchAllReleases getTime now source this w = (Inr (cachedReleases this), this, w)"
  by (simp add: fetchAllReleases_def)

lemma fetch_mock:
  "fst (fetchAllReleases testTime 1000 (RespondsOk mockReleases) (testNotifier None) emptyWorld) =
     Inr (Val sortedMockReleases)"
  by (simp add: eval_defs test_defs)

lemma requests_saveCacheToDisk: "requests (saveCacheToDisk this w) = requests w"
  by (simp add: saveCacheToDisk_def writeFileSync_def Let_def split: option.splits)

lemma fetchAllReleases_requests:
  "\<not> cacheValid this now \<Longrightarrow>
   requests (snd (snd (fetchAllReleases getTime now source this w))) = requests w @ [request this]"
  by (cases source) (simp_all add: fetchAllReleases_def Let_def requests_saveCacheToDisk)

lemma fetchAllReleases_any_world:
  "fst (fetchAllReleases getTime now source this w) =
     fst (fetchAllReleases getTime now source this w') \<and>
   fst (snd (fetchAllReleases getTime now source this w)) =
     fst (snd (fetchAllReleases getTime now source this w'))"
  by (cases source) (simp_all add: fetchAllReleases_def Let_def)

lemma saveCacheToDisk_unwritable:
  "cacheFilePath this = Some p \<Longrightarrow> p \<in> unwritable w \<Longrightarrow> saveCacheToDisk this w = w"
  by (simp add: saveCacheToDisk_def writeFileSync_def Let_def)

subsection \<open>What the public operations return\<close>

lemma getLatestRelease_world:
  "snd (getLatestRelease getTime inc now source this w) =
   snd (fetchAllReleases getTime now source this w)"
  by (simp add: getLatestRelease_def split: prod.splits sum.splits jsval.splits)

lemma getLatestPrerelease_world:
  "snd (getLatestPrerelease getTime now source this w) =
   snd (fetchAllReleases getTime now source this w)"
  by (simp add: getLatestPrerelease_def split: prod.splits sum.splits jsval.splits)

lemma checkVersion_world:
  "snd (checkVersion getTime cv isPre now source this w) =
   snd (fetchAllReleases getTime now source this w)"
  by (simp add: checkVersion_def split: prod.splits sum.splits jsval.splits)

lemma getLatestRelease_result:
  "fst (getLatestRelease getTime inc now source this w) = Inr res \<Longrightarrow>
   \<exists>releases. res = latestOf inc releases"
  by (auto simp: getLatestRelease_def split: prod.splits sum.splits jsval.splits)

lemma getLatestPrerelease_result:
  "fst (getLatestPrerelease getTime now source this w) = Inr res \<Longrightarrow>
   \<exists>releases. res = latestPrereleaseOf releases"
  by (auto simp: getLatestPrerelease_def split: prod.splits sum.splits jsval.splits)

lemma checkVersion_result:
  "fst (checkVersion getTime cv isPre now source this w) = Inr res \<Longrightarrow>
   \<exists>releases. res = checkAgainst getTime cv isPre releases"
  by (auto simp: checkVersion_def split: prod.splits sum.splits jsval.splits)

lemma getLatestRelease_any_world:
  "fst (getLatestRelease getTime inc now source this w) =
     fst (getLatestRelease getTime inc now source this w') \<and>
   fst (snd (getLatestRelease getTime inc now source this w)) =
     fst (snd (getLatestRelease getTime inc now source this w'))"
  using fetchAllReleases_any_world [of getTime now source this w w']
  by (cases "fetchAllReleases getTime now source this w";
      cases "fetchAllReleases getTime now source this w'")
    (auto simp: getLatestRelease_def split: sum.splits jsval.splits)

lemma getLatestPrerelease_any_world:
  "fst (getLatestPrerelease getTime now source this w) =
     fst (getLatestPrerelease getTime now source this w') \<and>
   fst (snd (getLatestPrerelease getTime now source this w)) =
     fst (snd (getLatestPrerelease getTime now source this w'))"
  using fetchAllReleases_any_world [of getTime now source this w w']
  by (cases "fetchAllReleases getTime now source this w";
      cases "fetchAllReleases getTime now source this w'")
    (auto simp: getLatestPrerelease_def split: sum.splits jsval.splits)

lemma checkVersion_any_world:
  "fst (checkVersion getTime cv isPre now source this w) =
     fst (checkVersion getTime cv isPre now source this w') \<and>
   fst (snd (checkVersion getTime cv isPre now source this w)) =
     fst (snd (checkVersion getTime cv isPre now source this w'))"
  using fetchAllReleases_any_world [of getTime now source this w w']
  by (cases "fetchAllReleases getTime now source this w";
      cases "fetchAllReleases getTime now source this w'")
    (auto simp: checkVersion_def split: sum.splits jsval.splits)

lemma checkVersion_via_checkAgainst:
  "fst (fetchAllReleases getTime now source this w) = Inr (Val releases) \<Longrightarrow>
   fst (checkVersion getTime cv isPrerelease now source this w) =
     Inr (checkAgainst getTime cv isPrerelease releases)"
  by (cases "fetchAllReleases getTime now source this w") (simp add: checkVersion_def)

lemma latestReleaseOf_find:
  "latestReleaseOf isPrerelease releases =
     find (\<lambda>r. \<not> draft r \<and> prerelease r = isPrerelease) releases"
  by (induction releases) (auto simp: latestReleaseOf_def)

lemma currentReleaseOf_None:
  "(currentReleaseOf cv releases = None) =
   (\<forall>r \<in> set releases. tag_name r \<noteq> cv \<and> normalizeVersion (tag_name r) \<noteq> normalizeVersion cv)"
  by (auto simp: currentReleaseOf_def find_None_iff)

lemma find_Some_nonempty: "find P xs = Some x \<Longrightarrow> length xs \<noteq> 0"
  by (cases xs) simp_all


lemma latestOf_not_draft: "latestOf inc releases = Some rel \<Longrightarrow> \<not> rel_draft rel"
proof -
  assume a: "latestOf inc releases = Some rel"
  then obtain y ys where f: "validReleases inc releases = y # ys" and r: "rel = toRelease y"
    by (auto simp: latestOf_def split: list.splits)
  from f have "y \<in> set (validReleases inc releases)" by simp
  then have "\<not> draft y"
    by (auto simp: validReleases_def split: if_splits)
  with r show ?thesis by (simp add: toRelease_def)
qed

lemma latestPrereleaseOf_flags:
  "latestPrereleaseOf releases = Some rel \<Longrightarrow> \<not> rel_draft rel \<and> rel_prerelease rel"
  by (auto simp: latestPrereleaseOf_def toRelease_def find_Some_iff split: option.splits)

lemma checkAgainst_not_draft:
  "latestRelease (checkAgainst getTime cv isPre releases) = Some rel \<Longrightarrow> \<not> rel_draft rel"
  by (auto simp: checkAgainst_def latestReleaseOf_find toRelease_def find_Some_iff
      split: if_splits option.splits)

lemma cacheValid_Val:
  "lastFetchTime this = Val t \<Longrightarrow>
   cacheValid this now =
     (cachedReleases this \<noteq> Null \<and> 0 < checkInterval this \<and> now - t < checkInterval this)"
  by (simp add: cacheValid_def toNumber_def js_minus_def js_less_def)

subsection \<open>The latest release\<close>



subsection \<open>checkVersion\<close>



text \<open>
  Claim C3. When \<open>checkVersion\<close> finds a release for \<open>currentVersion\<close> and a
  reference release, \<open>updateAvailable\<close> is true exactly when the publication time of
  the matched release is strictly less than the publication time of the reference
  release (both dates being valid dates; a comparison with \<open>NaN\<close> is false). Equal
  time stamps give \<open>updateAvailable = false\<close>.
\<close>

theorem checkVersion_compares_publish_time:
  assumes "fst (fetchAllReleases getTime now source this w) = Inr (Val releases)"
    and "currentReleaseOf cv releases = Some matched"
    and "latestReleaseOf isPrerelease releases = Some reference"
  shows "\<exists>res. fst (checkVersion getTime cv isPrerelease now source this w) = Inr res \<and>
           latestVersion res = Some (tag_name reference) \<and>
           latestRelease res = Some (toRelease reference) \<and>
           (updateAvailable res \<longleftrightarrow>
              (\<exists>t1 t2. getTime (published_at matched) = Some t1 \<and>
                 getTime (published_at reference) = Some t2 \<and> t1 < t2)) \<and>
           (getTime (published_at matched) = getTime (published_at reference) \<longrightarrow>
              \<not> updateAvailable res)"
proof -
  have ne: "length releases \<noteq> 0"
    using assms(2) unfolding currentReleaseOf_def Let_def by (rule find_Some_nonempty)
  have "checkAgainst getTime cv isPrerelease releases =
      \<lparr>updateAvailable = isVersionOlder getTime (published_at matched) (published_at reference),
       currentVersion = cv, latestVersion = Some (tag_name reference),
       latestRelease = Some (toRelease reference)\<rparr>"
    using assms(2,3) ne by (simp add: checkAgainst_def)
  moreover have "isVersionOlder getTime (published_at matched) (published_at reference) \<longleftrightarrow>
      (\<exists>t1 t2. getTime (published_at matched) = Some t1 \<and>
         getTime (published_at reference) = Some t2 \<and> t1 < t2)"
    by (auto simp: isVersionOlder_def js_less_def split: option.splits)
  moreover have "getTime (published_at matched) = getTime (published_at reference) \<longrightarrow>
      \<not> isVersionOlder getTime (published_at matched) (published_at reference)"
    by (auto simp: isVersionOlder_def js_less_def split: option.splits)
  ultimately show ?thesis
    using checkVersion_via_checkAgainst [OF assms(1)] by simp
qed

text \<open>
  v1.5.0 is older than the reference release v2.0.0; v2.0.0 is the reference release
  itself, so the two time stamps are equal.
\<close>

theorem checkVersion_compares_publish_time_witness:
  "currentReleaseOf ''v1.5.0'' sortedMockReleases = Some release_1_5_0 \<and>
   currentReleaseOf ''v2.0.0'' sortedMockReleases = Some release_2_0_0 \<and>
   latestReleaseOf False sortedMockReleases = Some release_2_0_0 \<and>
   testTime (published_at release_1_5_0) = Some 1704067200000 \<and>
   testTime (published_at release_2_0_0) = Some 1704240000000 \<and>
   (\<exists>res. fst (checkVersion testTime ''v1.5.0'' False 1000 (RespondsOk mockReleases)
                 (testNotifier None) emptyWorld) = Inr res \<and>
      latestVersion res = Some ''v2.0.0'' \<and> updateAvailable res) \<and>
   (\<exists>res. fst (checkVersion testTime ''v2.0.0'' False 1000 (RespondsOk mockReleases)
                 (testNotifier None) emptyWorld) = Inr res \<and>
      latestVersion res = Some ''v2.0.0'' \<and> \<not> updateAvailable res)"
proof -
  have c1: "currentReleaseOf ''v1.5.0'' sortedMockReleases = Some release_1_5_0"
    by (simp add: test_defs version_defs)
  have c2: "currentReleaseOf ''v2.0.0'' sortedMockReleases = Some release_2_0_0"
    by (simp add: test_defs version_defs)
  have l: "latestReleaseOf False sortedMockReleases = Some release_2_0_0"
    by (simp add: latestReleaseOf_def test_defs)
  have t1: "testTime (published_at release_1_5_0) = Some 1704067200000"
    by (simp add: test_defs)
  have t2: "testTime (published_at release_2_0_0) = Some 1704240000000"
    by (simp add: test_defs)
  have n: "tag_name release_2_0_0 = ''v2.0.0''"
    by (simp add: release_2_0_0_def)
  show ?thesis
    using checkVersion_compares_publish_time [OF fetch_mock c1 l]
      checkVersion_compares_publish_time [OF fetch_mock c2 l] c1 c2 l t1 t2 n
    by auto
qed

text \<open>
  Claim C4 says that an entry whose tag equals \<open>currentVersion\<close> verbatim is selected
  in preference to an entry that matches only after normalization. It fails: the source
  lists v1.0.0 (published 2024-01-01) and 1.0.0 (published 2024-01-03), and the sort puts
  1.0.0 first. For \<open>currentVersion = 'v1.0.0'\<close> the search selects 1.0.0, which matches
  only after normalization, and not v1.0.0, which matches verbatim; the answer is
  \<open>updateAvailable = false\<close>, although v1.0.0 is older than the reference release.
\<close>

theorem verbatim_precedence_counterexample:
  "tag_name release_v1_0_0 = ''v1.0.0'' \<and>
   tag_name release_1_0_0_bare \<noteq> ''v1.0.0'' \<and>
   normalizeVersion (tag_name release_1_0_0_bare) = normalizeVersion ''v1.0.0'' \<and>
   fst (fetchAllReleases testTime 1000 (RespondsOk [release_v1_0_0, release_1_0_0_bare])
          (testNotifier None) emptyWorld) = Inr (Val [release_1_0_0_bare, release_v1_0_0]) \<and>
   currentReleaseOf ''v1.0.0'' [release_1_0_0_bare, release_v1_0_0] = Some release_1_0_0_bare \<and>
   currentReleaseOf ''v1.0.0'' [release_1_0_0_bare, release_v1_0_0] \<noteq> Some release_v1_0_0 \<and>
   isVersionOlder testTime (published_at release_v1_0_0) (published_at release_1_0_0_bare) \<and>
   fst (checkVersion testTime ''v1.0.0'' False 1000 (RespondsOk [release_v1_0_0, release_1_0_0_bare])
          (testNotifier None) emptyWorld) =
     Inr \<lparr>updateAvailable = False, currentVersion = ''v1.0.0'',
          latestVersion = Some ''1.0.0'', latestRelease = Some (toRelease release_1_0_0_bare)\<rparr>"
  by (simp add: checkVersion_def checkAgainst_def latestReleaseOf_def isVersionOlder_def
      eval_defs test_defs version_defs)

text \<open>
  Claim C4, amended. The release selected for \<open>currentVersion\<close> is the first entry
  in list order whose tag equals \<open>currentVersion\<close> verbatim or after normalization:
  it matches one way or the other, no entry before it matches either way, and nothing is
  selected only when no entry matches. A verbatim match has no precedence over an
  earlier entry that matches after normalization.
\<close>

theorem currentRelease_first_match:
  "case currentReleaseOf cv releases of
     None \<Rightarrow>
       (\<forall>r \<in> set releases.
          \<not> (tag_name r = cv \<or> normalizeVersion (tag_name r) = normalizeVersion cv))
   | Some r \<Rightarrow>
       (\<exists>pre post. releases = pre @ r # post \<and>
          (tag_name r = cv \<or> normalizeVersion (tag_name r) = normalizeVersion cv) \<and>
          (\<forall>q \<in> set pre.
             \<not> (tag_name q = cv \<or> normalizeVersion (tag_name q) = normalizeVersion cv)))"
proof (cases "currentReleaseOf cv releases")
  case None
  then have "\<forall>r \<in> set releases.
      tag_name r \<noteq> cv \<and> normalizeVersion (tag_name r) \<noteq> normalizeVersion cv"
    by (simp add: currentReleaseOf_None)
  with None show ?thesis by simp
next
  case (Some r)
  then obtain i where i: "i < length releases"
      "normalizeVersion (tag_name (releases ! i)) = normalizeVersion cv \<or>
       tag_name (releases ! i) = cv"
      "r = releases ! i"
      "\<forall>j < i. \<not> (normalizeVersion (tag_name (releases ! j)) = normalizeVersion cv \<or>
         tag_name (releases ! j) = cv)"
    unfolding currentReleaseOf_def Let_def find_Some_iff by blast
  have split: "releases = take i releases @ r # drop (Suc i) releases"
    using i(1,3) by (simp add: id_take_nth_drop)
  have "\<forall>q \<in> set (take i releases).
      \<not> (tag_name q = cv \<or> normalizeVersion (tag_name q) = normalizeVersion cv)"
  proof
    fix q assume "q \<in> set (take i releases)"
    then obtain j where "j < i" "q = releases ! j"
      using i(1) by (auto simp: in_set_conv_nth)
    with i(4) show "\<not> (tag_name q = cv \<or> normalizeVersion (tag_name q) = normalizeVersion cv)"
      by blast
  qed
  with split i(2,3) Some show ?thesis
    by (auto simp del: append_take_drop_id)
qed

text \<open>
  On the list of the counterexample the first match is 1.0.0, with nothing before it;
  v3.0.0 matches no entry.
\<close>

theorem currentRelease_first_match_witness:
  "currentReleaseOf ''v1.0.0'' [release_1_0_0_bare, release_v1_0_0] = Some release_1_0_0_bare \<and>
   (\<exists>pre post. [release_1_0_0_bare, release_v1_0_0] = pre @ release_1_0_0_bare # post \<and>
      normalizeVersion (tag_name release_1_0_0_bare) = normalizeVersion ''v1.0.0'' \<and>
      list_all (\<lambda>q. \<not> (tag_name q = ''v1.0.0'' \<or>
         normalizeVersion (tag_name q) = normalizeVersion ''v1.0.0'')) pre) \<and>
   currentReleaseOf ''v3.0.0'' [release_1_0_0_bare, release_v1_0_0] = None \<and>
   list_all (\<lambda>r. \<not> (tag_name r = ''v3.0.0'' \<or>
      normalizeVersion (tag_name r) = normalizeVersion ''v3.0.0''))
     [release_1_0_0_bare, release_v1_0_0]"
proof -
  have c: "currentReleaseOf ''v1.0.0'' [release_1_0_0_bare, release_v1_0_0] =
      Some release_1_0_0_bare"
    by (simp add: test_defs version_defs)
  have n: "currentReleaseOf ''v3.0.0'' [release_1_0_0_bare, release_v1_0_0] = None"
    by (simp add: test_defs version_defs)
  have b: "tag_name release_1_0_0_bare \<noteq> ''v1.0.0''"
    by (simp add: release_1_0_0_bare_def)
  show ?thesis
    using currentRelease_first_match
        [where cv = "''v1.0.0''" and releases = "[release_1_0_0_bare, release_v1_0_0]"]
      currentRelease_first_match
        [where cv = "''v3.0.0''" and releases = "[release_1_0_0_bare, release_v1_0_0]"] c n b
    by (auto simp: list_all_iff)
qed



subsection \<open>The cache\<close>

text \<open>
  Claim C5 says that after \<open>clearCache()\<close> the in-memory cache holds an explicit
  empty-but-present entry (empty list, time stamp 0), distinct from the absent state.
  It fails: \<open>clearCache\<close> sets \<open>cachedReleases\<close> to \<open>null\<close>, not to the empty list, and
  the notifier is then in the very state in which the constructor leaves a notifier that
  never had a cache. Only the file receives the empty entry.
\<close>

theorem clearCache_memory_counterexample:
  "cachedReleases cachedNotifier = Val sortedMockReleases \<and>
   cachedReleases (fst (clearCache cachedNotifier emptyWorld)) = Null \<and>
   cachedReleases (fst (clearCache cachedNotifier emptyWorld)) \<noteq> Val [] \<and>
   fst (clearCache cachedNotifier emptyWorld) = constructor testConfig emptyWorld \<and>
   files (snd (clearCache cachedNotifier emptyWorld)) ''/tmp/test-cache.json'' =
     JsonObject (Val []) (Val 0)"
  by (simp add: clearCache_def saveCacheToDisk_def writeFileSync_def constructor_def
      loadCacheFromDisk_def existsSync_def fixture_defs testNotifier_def emptyWorld_def Let_def)

text \<open>
  Claim C5, amended. After \<open>clearCache()\<close> returns, the in-memory cache is absent
  (\<open>cachedReleases = null\<close>) with fetch time stamp 0, and, when a non-empty cache file
  path is configured and the file can be written, the file holds the explicit empty
  entry: an empty release list and fetch time stamp 0.
\<close>

theorem clearCache_state:
  "cachedReleases (fst (clearCache this w)) = Null \<and>
   lastFetchTime (fst (clearCache this w)) = Val 0 \<and>
   (cacheFilePath this = Some p \<and> p \<noteq> [] \<and> p \<notin> unwritable w \<longrightarrow>
      files (snd (clearCache this w)) p = JsonObject (Val []) (Val 0))"
  by (simp add: clearCache_def saveCacheToDisk_def writeFileSync_def Let_def)

text \<open>
  Clearing the filled notifier in a world where the file can be written.
\<close>

theorem clearCache_state_witness:
  "cacheFilePath cachedNotifier = Some ''/tmp/test-cache.json'' \<and>
   ''/tmp/test-cache.json'' \<notin> unwritable emptyWorld \<and>
   cachedReleases (fst (clearCache cachedNotifier emptyWorld)) = Null \<and>
   lastFetchTime (fst (clearCache cachedNotifier emptyWorld)) = Val 0 \<and>
   files (snd (clearCache cachedNotifier emptyWorld)) ''/tmp/test-cache.json'' =
     JsonObject (Val []) (Val 0)"
proof -
  have h1: "cacheFilePath cachedNotifier = Some ''/tmp/test-cache.json''"
    by (simp add: cachedNotifier_def testNotifier_def)
  have h2: "''/tmp/test-cache.json'' \<notin> unwritable emptyWorld"
    by (simp add: emptyWorld_def)
  show ?thesis
    using clearCache_state [of cachedNotifier emptyWorld "''/tmp/test-cache.json''"] h1 h2
    by simp
qed

text \<open>
  Claim C6. After construction the cache is all-or-nothing: it is absent, or it holds a
  release list and a fetch time stamp from one well-formed persisted entry; a file whose
  JSON parses but lacks one of the two fields never leaves it partially populated; and
  construction never raises an error.

  The code does not keep the middle part. \<open>loadCacheFromDisk\<close> discards a cache file
  only when something throws inside its \<open>try\<close> block (``If we can't read the cache, just
  start fresh''): a file that cannot be read, text that does not parse and the JSON
  value \<open>null\<close> all give the absent state. A file that parses to an object without
  one of the fields throws nothing, so it slips past that reset. From
  \<open>{"lastFetchTime": 1000}\<close> the notifier is left with \<open>cachedReleases = undefined\<close>
  and \<open>lastFetchTime = 1000\<close>; \<open>getLatestRelease\<close> at time 2000 then takes the
  \<open>undefined\<close> for a fresh cached list and throws a \<open>TypeError\<close> without sending a
  request to the source. From a file with \<open>releases\<close> only, the list is loaded and
  \<open>lastFetchTime\<close> is \<open>undefined\<close>. The theorem evaluates the code on these two
  files, on the three sibling files that are discarded, and on a well-formed file.
\<close>

theorem constructor_missing_field_defect:
  "constructor testConfig (worldWith (JsonObject Undefined (Val 1000))) =
     (testNotifier (Some ''/tmp/test-cache.json''))
       \<lparr>cachedReleases := Undefined, lastFetchTime := Val 1000\<rparr> \<and>
   getLatestRelease testTime False 2000 (RespondsOk mockReleases)
     (constructor testConfig (worldWith (JsonObject Undefined (Val 1000))))
     (worldWith (JsonObject Undefined (Val 1000))) =
     (Inl (FailedToFetchReleases TypeError),
      constructor testConfig (worldWith (JsonObject Undefined (Val 1000))),
      worldWith (JsonObject Undefined (Val 1000))) \<and>
   requests (worldWith (JsonObject Undefined (Val 1000))) = [] \<and>
   constructor testConfig (worldWith (JsonObject (Val sortedMockReleases) Undefined)) =
     (testNotifier (Some ''/tmp/test-cache.json''))
       \<lparr>cachedReleases := Val sortedMockReleases, lastFetchTime := Undefined\<rparr> \<and>
   constructor testConfig (worldWith Unreadable) = testNotifier (Some ''/tmp/test-cache.json'') \<and>
   constructor testConfig (worldWith Unparsable) = testNotifier (Some ''/tmp/test-cache.json'') \<and>
   constructor testConfig (worldWith JsonNull) = testNotifier (Some ''/tmp/test-cache.json'') \<and>
   constructor testConfig (worldWith (JsonObject (Val sortedMockReleases) (Val 1000))) =
     cachedNotifier"
  by (simp add: constructor_def loadCacheFromDisk_def existsSync_def getLatestRelease_def
      eval_defs fixture_defs testNotifier_def emptyWorld_def)

text \<open>
  Claim C7. While a cache entry is present, \<open>checkInterval\<close> is strictly positive and
  the time since the last fetch is strictly less than \<open>checkInterval\<close>,
  \<open>getLatestRelease\<close>, \<open>getLatestPrerelease\<close> and \<open>checkVersion\<close> send no request to the
  release source, change nothing and compute their result from the cached list. When
  \<open>checkInterval\<close> is zero or negative, or the time since the last fetch has reached
  \<open>checkInterval\<close>, each of them sends one request to the source.
\<close>

theorem cache_freshness:
  "(cachedReleases this = Val cached \<and> lastFetchTime this = Val t \<and>
    0 < checkInterval this \<and> now - t < checkInterval this \<longrightarrow>
      getLatestRelease getTime inc now source this w = (Inr (latestOf inc cached), this, w) \<and>
      getLatestPrerelease getTime now source this w = (Inr (latestPrereleaseOf cached), this, w) \<and>
      checkVersion getTime cv isPre now source this w =
        (Inr (checkAgainst getTime cv isPre cached), this, w)) \<and>
   (lastFetchTime this = Val t \<and> (checkInterval this \<le> 0 \<or> checkInterval this \<le> now - t) \<longrightarrow>
      requests (snd (snd (getLatestRelease getTime inc now source this w))) =
        requests w @ [request this] \<and>
      requests (snd (snd (getLatestPrerelease getTime now source this w))) =
        requests w @ [request this] \<and>
      requests (snd (snd (checkVersion getTime cv isPre now source this w))) =
        requests w @ [request this])"
proof (intro conjI impI)
  assume a: "cachedReleases this = Val cached \<and> lastFetchTime this = Val t \<and>
    0 < checkInterval this \<and> now - t < checkInterval this"
  then have "cacheValid this now"
    by (simp add: cacheValid_Val)
  then have f: "fetchAllReleases getTime now source this w = (Inr (Val cached), this, w)"
    using a by (simp add: fetchAllReleases_cached)
  show "getLatestRelease getTime inc now source this w = (Inr (latestOf inc cached), this, w)"
    by (simp add: getLatestRelease_def f)
  show "getLatestPrerelease getTime now source this w = (Inr (latestPrereleaseOf cached), this, w)"
    by (simp add: getLatestPrerelease_def f)
  show "checkVersion getTime cv isPre now source this w =
      (Inr (checkAgainst getTime cv isPre cached), this, w)"
    by (simp add: checkVersion_def f)
next
  assume a: "lastFetchTime this = Val t \<and>
    (checkInterval this \<le> 0 \<or> checkInterval this \<le> now - t)"
  then have n: "\<not> cacheValid this now"
    by (auto simp: cacheValid_Val)
  show "requests (snd (snd (getLatestRelease getTime inc now source this w))) =
      requests w @ [request this]"
    by (simp add: getLatestRelease_world fetchAllReleases_requests [OF n])
  show "requests (snd (snd (getLatestPrerelease getTime now source this w))) =
      requests w @ [request this]"
    by (simp add: getLatestPrerelease_world fetchAllReleases_requests [OF n])
  show "requests (snd (snd (checkVersion getTime cv isPre now source this w))) =
      requests w @ [request this]"
    by (simp add: checkVersion_world fetchAllReleases_requests [OF n])
qed

text \<open>
  The cache was filled at time 1000 and the interval is 60000: at time 60999 the cached
  list answers (the source would answer with an empty list), at time 61000 the source is
  asked; with interval 0 it is asked one millisecond after the fetch.
\<close>

theorem cache_freshness_witness:
  "cachedReleases cachedNotifier = Val sortedMockReleases \<and>
   lastFetchTime cachedNotifier = Val 1000 \<and> checkInterval cachedNotifier = 60000 \<and>
   getLatestRelease testTime False 60999 (RespondsOk []) cachedNotifier emptyWorld =
     (Inr (Some (toRelease release_2_0_0)), cachedNotifier, emptyWorld) \<and>
   requests emptyWorld = [] \<and>
   requests (snd (snd (getLatestRelease testTime False 61000 (RespondsOk []) cachedNotifier
     emptyWorld))) = [request cachedNotifier] \<and>
   requests (snd (snd (checkVersion testTime ''v1.5.0'' False 1001 (RespondsOk [])
     (cachedNotifier\<lparr>checkInterval := 0\<rparr>) emptyWorld))) =
     [request (cachedNotifier\<lparr>checkInterval := 0\<rparr>)]"
proof -
  have h: "cachedReleases cachedNotifier = Val sortedMockReleases"
      "lastFetchTime cachedNotifier = Val 1000" "checkInterval cachedNotifier = 60000"
    by (simp_all add: cachedNotifier_def testNotifier_def)
  have h0: "lastFetchTime (cachedNotifier\<lparr>checkInterval := 0\<rparr>) = Val 1000"
      "checkInterval (cachedNotifier\<lparr>checkInterval := 0\<rparr>) = 0"
    by (simp_all add: cachedNotifier_def testNotifier_def)
  have l: "latestOf False sortedMockReleases = Some (toRelease release_2_0_0)"
    by (simp add: latestOf_def validReleases_def test_defs)
  have e: "requests emptyWorld = []"
    by (simp add: emptyWorld_def)
  show ?thesis
    using cache_freshness [where this = cachedNotifier and cached = sortedMockReleases
        and t = 1000 and now = 60999 and getTime = testTime and inc = False
        and source = "RespondsOk []" and w = emptyWorld]
      cache_freshness [where this = cachedNotifier and t = 1000 and now = 61000
        and getTime = testTime and inc = False and source = "RespondsOk []" and w = emptyWorld]
      cache_freshness [where this = "cachedNotifier\<lparr>checkInterval := 0\<rparr>" and t = 1000
        and now = 1001 and getTime = testTime and cv = "''v1.5.0''" and isPre = False
        and source = "RespondsOk []" and w = emptyWorld]
      h h0 l e
    by simp
qed

subsection \<open>Drafts and failing writes\<close>

text \<open>
  Claim C8. Every \<open>Release\<close> in the result of \<open>getLatestRelease\<close> (with either flag
  value), \<open>getLatestPrerelease\<close> or \<open>checkVersion\<close> has \<open>draft = false\<close>, and a
  \<open>Release\<close> returned by \<open>getLatestPrerelease\<close> has \<open>prerelease = true\<close>, whatever the
  notifier's state and the source's answer are.
\<close>

theorem no_draft_exposed:
  "(fst (getLatestRelease getTime inc now source this w) = Inr (Some rel1) \<longrightarrow>
      \<not> rel_draft rel1) \<and>
   (fst (getLatestPrerelease getTime now source this w) = Inr (Some rel2) \<longrightarrow>
      \<not> rel_draft rel2 \<and> rel_prerelease rel2) \<and>
   (fst (checkVersion getTime cv isPre now source this w) = Inr res \<and>
    latestRelease res = Some rel3 \<longrightarrow> \<not> rel_draft rel3)"
proof -
  have 1: "\<not> rel_draft rel1"
    if "fst (getLatestRelease getTime inc now source this w) = Inr (Some rel1)"
  proof -
    from getLatestRelease_result [OF that]
    obtain releases where "Some rel1 = latestOf inc releases" ..
    then show ?thesis by (simp add: latestOf_not_draft [of inc releases rel1])
  qed
  have 2: "\<not> rel_draft rel2 \<and> rel_prerelease rel2"
    if "fst (getLatestPrerelease getTime now source this w) = Inr (Some rel2)"
  proof -
    from getLatestPrerelease_result [OF that]
    obtain releases where "Some rel2 = latestPrereleaseOf releases" ..
    then show ?thesis by (simp add: latestPrereleaseOf_flags [of releases rel2])
  qed
  have 3: "\<not> rel_draft rel3"
    if "fst (checkVersion getTime cv isPre now source this w) = Inr res"
      and "latestRelease res = Some rel3"
  proof -
    from checkVersion_result [OF that(1)]
    obtain releases where "res = checkAgainst getTime cv isPre releases" ..
    with that(2) show ?thesis
      by (simp add: checkAgainst_not_draft [of getTime cv isPre releases rel3])
  qed
  show ?thesis
  proof (intro conjI)
    show "fst (getLatestRelease getTime inc now source this w) = Inr (Some rel1) \<longrightarrow>
        \<not> rel_draft rel1"
      using 1 by (rule impI)
    show "fst (getLatestPrerelease getTime now source this w) = Inr (Some rel2) \<longrightarrow>
        \<not> rel_draft rel2 \<and> rel_prerelease rel2"
      using 2 by (rule impI)
    show "fst (checkVersion getTime cv isPre now source this w) = Inr res \<and>
        latestRelease res = Some rel3 \<longrightarrow> \<not> rel_draft rel3"
    proof
      assume "fst (checkVersion getTime cv isPre now source this w) = Inr res \<and>
        latestRelease res = Some rel3"
      then show "\<not> rel_draft rel3" using 3 by (elim conjE)
    qed
  qed
qed

text \<open>
  The three operations on the releases of the test suite, which hold the draft v1.4.0.
\<close>

theorem no_draft_exposed_witness:
  "fst (getLatestRelease testTime True 1000 (RespondsOk mockReleases) (testNotifier None)
     emptyWorld) = Inr (Some (toRelease release_2_0_0)) \<and>
   \<not> rel_draft (toRelease release_2_0_0) \<and>
   fst (getLatestPrerelease testTime 1000 (RespondsOk mockReleases) (testNotifier None)
     emptyWorld) = Inr (Some (toRelease release_2_0_0_beta_1)) \<and>
   \<not> rel_draft (toRelease release_2_0_0_beta_1) \<and>
   rel_prerelease (toRelease release_2_0_0_beta_1) \<and>
   fst (checkVersion testTime ''v1.4.0'' False 1000 (RespondsOk mockReleases) (testNotifier None)
     emptyWorld) =
     Inr \<lparr>updateAvailable = True, currentVersion = ''v1.4.0'',
          latestVersion = Some ''v2.0.0'', latestRelease = Some (toRelease release_2_0_0)\<rparr>"
proof -
  have g: "fst (getLatestRelease testTime True 1000 (RespondsOk mockReleases) (testNotifier None)
      emptyWorld) = Inr (Some (toRelease release_2_0_0))"
    by (simp add: getLatestRelease_def latestOf_def validReleases_def eval_defs test_defs)
  have p: "fst (getLatestPrerelease testTime 1000 (RespondsOk mockReleases) (testNotifier None)
      emptyWorld) = Inr (Some (toRelease release_2_0_0_beta_1))"
    by (simp add: getLatestPrerelease_def latestPrereleaseOf_def eval_defs test_defs)
  have c: "fst (checkVersion testTime ''v1.4.0'' False 1000 (RespondsOk mockReleases)
      (testNotifier None) emptyWorld) =
      Inr \<lparr>updateAvailable = True, currentVersion = ''v1.4.0'',
           latestVersion = Some ''v2.0.0'', latestRelease = Some (toRelease release_2_0_0)\<rparr>"
    by (simp add: checkVersion_def checkAgainst_def latestReleaseOf_def isVersionOlder_def
        eval_defs test_defs version_defs)
  show ?thesis
    using no_draft_exposed [where getTime = testTime and inc = True and now = 1000
        and source = "RespondsOk mockReleases" and this = "testNotifier None" and w = emptyWorld
        and ?rel1.0 = "toRelease release_2_0_0" and ?rel2.0 = "toRelease release_2_0_0_beta_1"
        and cv = "''v1.4.0''" and isPre = False and ?rel3.0 = "toRelease release_2_0_0"
        and res = "\<lparr>updateAvailable = True, currentVersion = ''v1.4.0'',
           latestVersion = Some ''v2.0.0'', latestRelease = Some (toRelease release_2_0_0)\<rparr>"]
      g p c
    by simp
qed

text \<open>
  Claim C9. When the cache file cannot be written, the failure is not propagated: each
  public operation returns the same result and leaves the notifier in the same state as
  in a world where every write succeeds; after a fetch that the source answers, it
  returns its normal result with the new list cached in memory and the disk untouched;
  and \<open>clearCache\<close> resets the in-memory state and returns, leaving the world as it
  was, where a successful write would have stored the empty entry.
\<close>

theorem write_failure_swallowed:
  assumes "cacheFilePath this = Some p" and "p \<noteq> []" and "p \<in> unwritable w"
  shows "fst (getLatestRelease getTime inc now source this w) =
           fst (getLatestRelease getTime inc now source this (w\<lparr>unwritable := {}\<rparr>)) \<and>
         fst (snd (getLatestRelease getTime inc now source this w)) =
           fst (snd (getLatestRelease getTime inc now source this (w\<lparr>unwritable := {}\<rparr>))) \<and>
         fst (getLatestPrerelease getTime now source this w) =
           fst (getLatestPrerelease getTime now source this (w\<lparr>unwritable := {}\<rparr>)) \<and>
         fst (snd (getLatestPrerelease getTime now source this w)) =
           fst (snd (getLatestPrerelease getTime now source this (w\<lparr>unwritable := {}\<rparr>))) \<and>
         fst (checkVersion getTime cv isPre now source this w) =
           fst (checkVersion getTime cv isPre now source this (w\<lparr>unwritable := {}\<rparr>)) \<and>
         fst (snd (checkVersion getTime cv isPre now source this w)) =
           fst (snd (checkVersion getTime cv isPre now source this (w\<lparr>unwritable := {}\<rparr>))) \<and>
         (\<not> cacheValid this now \<longrightarrow>
            getLatestRelease getTime inc now (RespondsOk body) this w =
              (Inr (latestOf inc (sort_by (byPublishedDesc getTime) body)),
               this\<lparr>cachedReleases := Val (sort_by (byPublishedDesc getTime) body),
                    lastFetchTime := Val now\<rparr>,
               w\<lparr>requests := requests w @ [request this]\<rparr>) \<and>
            getLatestPrerelease getTime now (RespondsOk body) this w =
              (Inr (latestPrereleaseOf (sort_by (byPublishedDesc getTime) body)),
               this\<lparr>cachedReleases := Val (sort_by (byPublishedDesc getTime) body),
                    lastFetchTime := Val now\<rparr>,
               w\<lparr>requests := requests w @ [request this]\<rparr>) \<and>
            checkVersion getTime cv isPre now (RespondsOk body) this w =
              (Inr (checkAgainst getTime cv isPre (sort_by (byPublishedDesc getTime) body)),
               this\<lparr>cachedReleases := Val (sort_by (byPublishedDesc getTime) body),
                    lastFetchTime := Val now\<rparr>,
               w\<lparr>requests := requests w @ [request this]\<rparr>)) \<and>
         clearCache this w = (this\<lparr>cachedReleases := Null, lastFetchTime := Val 0\<rparr>, w) \<and>
         fst (clearCache this w) = fst (clearCache this (w\<lparr>unwritable := {}\<rparr>)) \<and>
         files (snd (clearCache this (w\<lparr>unwritable := {}\<rparr>))) p = JsonObject (Val []) (Val 0)"
proof -
  have c1: "clearCache this w = (this\<lparr>cachedReleases := Null, lastFetchTime := Val 0\<rparr>, w)"
    using assms(1,3) by (simp add: clearCache_def Let_def saveCacheToDisk_unwritable)
  have c2: "fst (clearCache this w) = fst (clearCache this (w\<lparr>unwritable := {}\<rparr>))"
    by (simp add: clearCache_def Let_def)
  have c3: "files (snd (clearCache this (w\<lparr>unwritable := {}\<rparr>))) p = JsonObject (Val []) (Val 0)"
    using assms(1,2) by (simp add: clearCache_def Let_def saveCacheToDisk_def writeFileSync_def)
  have f: "fetchAllReleases getTime now (RespondsOk body) this w =
      (Inr (Val (sort_by (byPublishedDesc getTime) body)),
       this\<lparr>cachedReleases := Val (sort_by (byPublishedDesc getTime) body),
            lastFetchTime := Val now\<rparr>,
       w\<lparr>requests := requests w @ [request this]\<rparr>)"
    if "\<not> cacheValid this now"
    using that assms(1,3) by (simp add: fetchAllReleases_fetch saveCacheToDisk_unwritable)
  have g: "\<not> cacheValid this now \<longrightarrow>
      getLatestRelease getTime inc now (RespondsOk body) this w =
        (Inr (latestOf inc (sort_by (byPublishedDesc getTime) body)),
         this\<lparr>cachedReleases := Val (sort_by (byPublishedDesc getTime) body),
              lastFetchTime := Val now\<rparr>,
         w\<lparr>requests := requests w @ [request this]\<rparr>) \<and>
      getLatestPrerelease getTime now (RespondsOk body) this w =
        (Inr (latestPrereleaseOf (sort_by (byPublishedDesc getTime) body)),
         this\<lparr>cachedReleases := Val (sort_by (byPublishedDesc getTime) body),
              lastFetchTime := Val now\<rparr>,
         w\<lparr>requests := requests w @ [request this]\<rparr>) \<and>
      checkVersion getTime cv isPre now (RespondsOk body) this w =
        (Inr (checkAgainst getTime cv isPre (sort_by (byPublishedDesc getTime) body)),
         this\<lparr>cachedReleases := Val (sort_by (byPublishedDesc getTime) body),
              lastFetchTime := Val now\<rparr>,
         w\<lparr>requests := requests w @ [request this]\<rparr>)"
    by (simp add: getLatestRelease_def getLatestPrerelease_def checkVersion_def f)
  show ?thesis
    using getLatestRelease_any_world [of getTime inc now source this w "w\<lparr>unwritable := {}\<rparr>"]
      getLatestPrerelease_any_world [of getTime now source this w "w\<lparr>unwritable := {}\<rparr>"]
      checkVersion_any_world [of getTime cv isPre now source this w "w\<lparr>unwritable := {}\<rparr>"]
      c1 c2 c3 g
    by (intro conjI) (simp_all only:)
qed

text \<open>
  A fetch and a clear in the world where the cache file cannot be written.
\<close>

theorem write_failure_swallowed_witness:
  "cacheFilePath (testNotifier (Some ''/tmp/test-cache.json'')) = Some ''/tmp/test-cache.json'' \<and>
   ''/tmp/test-cache.json'' \<in> unwritable readOnlyWorld \<and>
   \<not> cacheValid (testNotifier (Some ''/tmp/test-cache.json'')) 1000 \<and>
   getLatestRelease testTime False 1000 (RespondsOk mockReleases)
     (testNotifier (Some ''/tmp/test-cache.json'')) readOnlyWorld =
     (Inr (Some (toRelease release_2_0_0)),
      (testNotifier (Some ''/tmp/test-cache.json''))
        \<lparr>cachedReleases := Val sortedMockReleases, lastFetchTime := Val 1000\<rparr>,
      readOnlyWorld\<lparr>requests := [request (testNotifier (Some ''/tmp/test-cache.json''))]\<rparr>) \<and>
   fst (getLatestRelease testTime False 1000 (RespondsOk mockReleases)
     (testNotifier (Some ''/tmp/test-cache.json'')) (readOnlyWorld\<lparr>unwritable := {}\<rparr>)) =
     Inr (Some (toRelease release_2_0_0)) \<and>
   clearCache cachedNotifier readOnlyWorld =
     (testNotifier (Some ''/tmp/test-cache.json''), readOnlyWorld)"
proof -
  have h1: "cacheFilePath (testNotifier (Some ''/tmp/test-cache.json'')) =
      Some ''/tmp/test-cache.json''"
    by (simp add: testNotifier_def)
  have h1': "cacheFilePath cachedNotifier = Some ''/tmp/test-cache.json''"
    by (simp add: cachedNotifier_def testNotifier_def)
  have h2: "''/tmp/test-cache.json'' \<noteq> []"
    by simp
  have h3: "''/tmp/test-cache.json'' \<in> unwritable readOnlyWorld"
    by (simp add: readOnlyWorld_def emptyWorld_def)
  have h4: "\<not> cacheValid (testNotifier (Some ''/tmp/test-cache.json'')) 1000"
    by (simp add: cacheValid_def testNotifier_def)
  have s: "sort_by (byPublishedDesc testTime) mockReleases = sortedMockReleases"
    by (simp add: eval_defs test_defs)
  have l: "latestOf False sortedMockReleases = Some (toRelease release_2_0_0)"
    by (simp add: latestOf_def validReleases_def test_defs)
  have r: "requests readOnlyWorld = []"
    by (simp add: readOnlyWorld_def emptyWorld_def)
  have c: "cachedNotifier\<lparr>cachedReleases := Null, lastFetchTime := Val 0\<rparr> =
      testNotifier (Some ''/tmp/test-cache.json'')"
    by (simp add: cachedNotifier_def testNotifier_def)
  note T = write_failure_swallowed [OF h1 h2 h3, where getTime = testTime and inc = False
      and now = 1000 and source = "RespondsOk mockReleases" and body = mockReleases
      and cv = "''v1.5.0''" and isPre = False]
  from T have e: "fst (getLatestRelease testTime False 1000 (RespondsOk mockReleases)
      (testNotifier (Some ''/tmp/test-cache.json'')) (readOnlyWorld\<lparr>unwritable := {}\<rparr>)) =
      fst (getLatestRelease testTime False 1000 (RespondsOk mockReleases)
      (testNotifier (Some ''/tmp/test-cache.json'')) readOnlyWorld)"
    by (simp only:)
  from T h4 have a: "getLatestRelease testTime False 1000 (RespondsOk mockReleases)
      (testNotifier (Some ''/tmp/test-cache.json'')) readOnlyWorld =
      (Inr (latestOf False (sort_by (byPublishedDesc testTime) mockReleases)),
       (testNotifier (Some ''/tmp/test-cache.json''))
         \<lparr>cachedReleases := Val (sort_by (byPublishedDesc testTime) mockReleases),
          lastFetchTime := Val 1000\<rparr>,
       readOnlyWorld\<lparr>requests := requests readOnlyWorld @
         [request (testNotifier (Some ''/tmp/test-cache.json''))]\<rparr>)"
    by blast
  from write_failure_swallowed [OF h1' h2 h3, where getTime = testTime and inc = False
      and now = 1000 and source = "RespondsOk mockReleases" and body = mockReleases
      and cv = "''v1.5.0''" and isPre = False]
  have k: "clearCache cachedNotifier readOnlyWorld =
      (cachedNotifier\<lparr>cachedReleases := Null, lastFetchTime := Val 0\<rparr>, readOnlyWorld)"
    by blast
  show ?thesis
    using h1 h3 h4 e a k by (simp add: s l r c)
qed

end
